theory Spec2Isabelle
  imports Main
begin

section \<open>spotify-cli: data model\<close>

text \<open>
  The program is one Python module, \<^verbatim>\<open>spotify_cli.py\<close>: module-level loading of
  environment files, a class \<^verbatim>\<open>SpotifyCLI\<close> whose methods each make one call to the
  remote service through the \<^verbatim>\<open>spotipy\<close> client \<^verbatim>\<open>self.sp\<close> and print the answer,
  and \<^verbatim>\<open>main\<close>, which dispatches on the parsed command.

  The remote service, the terminal and the file system are the environment: a record
  \<open>world\<close> holds what each of them answers, and every method returns its Python result
  (\<open>Inl\<close> an exception that leaves the method, \<open>Inr\<close> the returned value) together with
  the list of effects it performed, in order.
\<close>

type_synonym path = string

text \<open>An exception that \<^verbatim>\<open>except Exception as e\<close> catches, with \<^verbatim>\<open>str(e)\<close>.\<close>

datatype py_exception = PyException string

text \<open>The JSON objects of the service, restricted to the fields the program reads.\<close>

record device =
  device_id :: string
  device_name :: string
  device_type :: string
  device_is_active :: bool

record artist =
  artist_name :: string
  artist_followers_total :: int
  artist_uri :: string

record album =
  album_name :: string
  album_artists :: "artist list"
  album_release_date :: string
  album_uri :: string

record track =
  track_name :: string
  track_artists :: "artist list"
  track_album :: album
  track_duration_ms :: int
  track_uri :: string

text \<open>
  \<^verbatim>\<open>sp.current_playback()\<close> answers \<^verbatim>\<open>None\<close> or an object whose \<^verbatim>\<open>item\<close> and
  \<^verbatim>\<open>device\<close> may be null.
\<close>

record playback =
  playback_item :: "track option"
  playback_progress_ms :: int
  playback_is_playing :: bool
  playback_device :: "device option"

record search_results =
  results_tracks :: "track list"
  results_artists :: "artist list"
  results_albums :: "album list"

record playlist_summary =
  summary_name :: string
  summary_tracks_total :: int
  summary_uri :: string

text \<open>
  A playlist's \<^verbatim>\<open>tracks.items\<close>: each item has a \<^verbatim>\<open>track\<close> field, which is null for a
  removed or unavailable track.
\<close>

record playlist =
  playlist_name :: string
  playlist_items :: "track option list"

text \<open>The arguments of \<^verbatim>\<open>SpotifyOAuth(...)\<close> in \<^verbatim>\<open>SpotifyCLI.__init__\<close>.\<close>

record oauth_config =
  client_id :: "string option"
  client_secret :: "string option"
  redirect_uri :: string
  scope :: string
  cache_path :: path

subsection \<open>Effects\<close>

text \<open>The methods of \<^verbatim>\<open>self.sp\<close> the program calls, with their arguments.\<close>

datatype api_call =
    Api_devices
  | Api_current_playback
  | Api_start_playback "string list option"
  | Api_pause_playback
  | Api_next_track
  | Api_previous_track
  | Api_search string string int
  | Api_current_user_playlists int
  | Api_playlist string
  | Api_volume int
  | Api_current_user_top_tracks int string

text \<open>
  One constructor for each \<^verbatim>\<open>print\<close> statement of the source, carrying the values its
  format string interpolates. The text of each message is given beside it (without its
  leading pictograph).
\<close>

datatype printed =
    Out_no_spotify_devices_found
      \<comment> \<open>No Spotify devices found!\<close>
  | Out_to_use_you_need_to
      \<comment> \<open>To use Spotify CLI, you need to:\<close>
  | Out_open_desktop_app
      \<comment> \<open>1. Open Spotify Desktop App, or\<close>
  | Out_open_on_phone
      \<comment> \<open>2. Open Spotify on your phone, or\<close>
  | Out_open_web_player
      \<comment> \<open>3. Open Spotify Web Player\<close>
  | Out_web_player_opened
      \<comment> \<open>Web player opened! Wait a moment for it to load, then try your command again.\<close>
  | Out_tip_play_open
      \<comment> \<open>Tip: Use 'spotify play --open' to automatically open web player\<close>
  | Out_none_active
      \<comment> \<open>Spotify devices found but none are active:\<close>
  | Out_device_bullet string string
      \<comment> \<open>name (type)\<close>
  | Out_start_playing_first
      \<comment> \<open>Open Spotify on one of these devices and start playing something first.\<close>
  | Out_nothing_playing
      \<comment> \<open>Nothing is currently playing\<close>
  | Out_now bool
      \<comment> \<open>Now Playing: / Now Paused:\<close>
  | Out_now_track string
  | Out_now_artist string
  | Out_now_album string
  | Out_now_progress int int int int
      \<comment> \<open>Progress: m:ss / m:ss\<close>
  | Out_now_device string
  | Out_playing_track
      \<comment> \<open>Playing track\<close>
  | Out_playback_resumed
      \<comment> \<open>Playback resumed\<close>
  | Out_playback_paused
      \<comment> \<open>Playback paused\<close>
  | Out_skipped_to_next
      \<comment> \<open>Skipped to next track\<close>
  | Out_back_to_previous
      \<comment> \<open>Back to previous track\<close>
  | Out_error py_exception
      \<comment> \<open>Error: str(e)\<close>
  | Out_no_tracks_found
  | Out_no_artists_found
  | Out_no_albums_found
  | Out_search_results string
      \<comment> \<open>Search results for 'query':\<close>
  | Out_artist_results string
  | Out_album_results string
  | Out_numbered nat string string
      \<comment> \<open>i. name - artists\<close>
  | Out_numbered_name nat string
      \<comment> \<open>i. name\<close>
  | Out_uri string
  | Out_followers int
  | Out_release string
  | Out_your_playlists
      \<comment> \<open>Your Playlists:\<close>
  | Out_tracks_total int
  | Out_playlist_title string
  | Out_volume_set int
      \<comment> \<open>Volume set to level%\<close>
  | Out_no_devices_found
      \<comment> \<open>No devices found\<close>
  | Out_available_devices
      \<comment> \<open>Available Devices:\<close>
  | Out_device_line bool string string
      \<comment> \<open>[active] name (type)\<close>
  | Out_device_id string
  | Out_your_top_tracks string
      \<comment> \<open>Your Top Tracks (range name):\<close>
  | Out_usage
      \<comment> \<open>parser.print_help()\<close>
  | Out_credentials_not_found
      \<comment> \<open>Error: Spotify credentials not found!\<close>
  | Out_create_env_file
      \<comment> \<open>Create a .spotify-cli.env file in your home directory with:\<close>
  | Out_sample_client_id
  | Out_sample_client_secret
  | Out_sample_redirect_uri
  | Out_env_location path
      \<comment> \<open>Location: path\<close>
  | Out_get_credentials_at
      \<comment> \<open>Get credentials at: https://developer.spotify.com/dashboard\<close>

datatype event =
    Call api_call
      \<comment> \<open>a request to the service through \<^verbatim>\<open>self.sp\<close>\<close>
  | Print printed
  | Input_prompt
      \<comment> \<open>\<^verbatim>\<open>input("Would you like to open Spotify Web Player? (y/n): ")\<close>\<close>
  | Webbrowser_open string
  | Construct_client oauth_config
      \<comment> \<open>\<^verbatim>\<open>spotipy.Spotify(auth_manager=SpotifyOAuth(...))\<close>\<close>

text \<open>
  The environment of one run. The \<open>sp_\<close> fields are what the \<^verbatim>\<open>spotipy\<close> client answers
  to each method (an exception or the parsed JSON); \<open>stdin_line\<close> is what \<^verbatim>\<open>input\<close>
  reads (\<open>None\<close> at end of input, where \<^verbatim>\<open>input\<close> raises \<^verbatim>\<open>EOFError\<close>);
  \<open>environ\<close> is \<^verbatim>\<open>os.environ\<close> at the start of the process; \<open>pw_dir\<close> is the home
  directory of the user in the password database (\<open>None\<close> when the user has no entry);
  \<open>script_dir\<close> lists the components of the absolute directory that holds
  \<^verbatim>\<open>spotify_cli.py\<close>; \<open>files\<close> maps the absolute path of each regular file to the
  variables that \<^verbatim>\<open>python-dotenv\<close> parses from it; \<open>sp_construct\<close> is what the
  constructors \<^verbatim>\<open>spotipy.Spotify(auth_manager=SpotifyOAuth(...))\<close> do for the given
  arguments (they raise, for instance, for an empty redirect URI).
\<close>

record world =
  environ :: "string \<rightharpoonup> string"
  cwd :: path
  pw_dir :: "path option"
  script_dir :: "string list"
  files :: "path \<rightharpoonup> (string \<rightharpoonup> string)"
  stdin_line :: "string option"
  sp_construct :: "oauth_config \<Rightarrow> py_exception + unit"
  sp_devices :: "py_exception + device list"
  sp_current_playback :: "py_exception + playback option"
  sp_start_playback :: "string list option \<Rightarrow> py_exception + unit"
  sp_pause_playback :: "py_exception + unit"
  sp_next_track :: "py_exception + unit"
  sp_previous_track :: "py_exception + unit"
  sp_search :: "string \<Rightarrow> string \<Rightarrow> int \<Rightarrow> py_exception + search_results"
  sp_current_user_playlists :: "int \<Rightarrow> py_exception + playlist_summary list"
  sp_playlist :: "string \<Rightarrow> py_exception + playlist"
  sp_volume :: "int \<Rightarrow> py_exception + unit"
  sp_current_user_top_tracks :: "int \<Rightarrow> string \<Rightarrow> py_exception + track list"

type_synonym 'a result = "(py_exception + 'a) \<times> event list"

section \<open>Library functions the program uses\<close>

text \<open>Truthiness of a value that is \<^verbatim>\<open>None\<close> or a string: \<^verbatim>\<open>None\<close> and \<^verbatim>\<open>''\<close> are false.\<close>

definition truthy :: "string option \<Rightarrow> bool" where
  "truthy v = (case v of None \<Rightarrow> False | Some s \<Rightarrow> s \<noteq> [])"

text \<open>\<^verbatim>\<open>str.lower\<close> on the letters A to Z.\<close>

definition lower_char :: "char \<Rightarrow> char" where
  "lower_char c =
     (case map_of (zip ''ABCDEFGHIJKLMNOPQRSTUVWXYZ'' ''abcdefghijklmnopqrstuvwxyz'') c of
        Some l \<Rightarrow> l
      | None \<Rightarrow> c)"

definition lower :: "string \<Rightarrow> string" where
  "lower s = map lower_char s"

text \<open>\<^verbatim>\<open>sep.join(xs)\<close>.\<close>

fun join :: "string \<Rightarrow> string list \<Rightarrow> string" where
  "join sep [] = []"
| "join sep [x] = x"
| "join sep (x # y # ys) = x @ sep @ join sep (y # ys)"

text \<open>
  \<^verbatim>\<open>os.path.join(a, b)\<close> of \<^verbatim>\<open>posixpath\<close>: an absolute \<open>b\<close> replaces \<open>a\<close>; otherwise
  the two are joined by one separator, unless \<open>a\<close> is empty or already ends with it.
\<close>

definition os_path_join :: "path \<Rightarrow> path \<Rightarrow> path" where
  "os_path_join a b =
     (if take 1 b = ''/'' then b
      else if a = [] \<or> [last a] = ''/'' then a @ b
      else a @ ''/'' @ b)"

text \<open>\<^verbatim>\<open>os.getenv(key)\<close> and \<^verbatim>\<open>os.getenv(key, default)\<close>.\<close>

definition getenv :: "world \<Rightarrow> string \<Rightarrow> string option" where
  "getenv w key = environ w key"

definition getenv_default :: "world \<Rightarrow> string \<Rightarrow> string \<Rightarrow> string" where
  "getenv_default w key dflt = (case environ w key of None \<Rightarrow> dflt | Some v \<Rightarrow> v)"

text \<open>\<^verbatim>\<open>os.path.exists\<close> on an absolute path (regular files only).\<close>

definition path_exists :: "world \<Rightarrow> path \<Rightarrow> bool" where
  "path_exists w p = (files w p \<noteq> None)"

text \<open>
  \<^verbatim>\<open>os.path.expanduser('~')\<close> of \<^verbatim>\<open>posixpath\<close>: the value of \<^verbatim>\<open>HOME\<close> in
  \<^verbatim>\<open>os.environ\<close> at the time of the call when it is set, and the home directory of the
  password database otherwise (the path is returned unchanged when there is none);
  trailing separators are stripped, and an empty result is the root.
\<close>

definition rstrip_sep :: "string \<Rightarrow> string" where
  "rstrip_sep s = rev (dropWhile (\<lambda>c. c = CHR ''/'') (rev s))"

definition expanduser_home :: "world \<Rightarrow> path" where
  "expanduser_home w =
     (case environ w ''HOME'' of
        Some h \<Rightarrow> (let userhome = rstrip_sep h in if userhome = [] then ''/'' else userhome)
      | None \<Rightarrow>
          (case pw_dir w of
             None \<Rightarrow> ''~''
           | Some d \<Rightarrow>
               (let userhome = rstrip_sep d in if userhome = [] then ''/'' else userhome)))"

text \<open>
  \<^verbatim>\<open>find_dotenv()\<close> of \<^verbatim>\<open>python-dotenv\<close>, as \<^verbatim>\<open>load_dotenv()\<close> calls it when it is
  given no path: it starts from the directory of the file that called \<^verbatim>\<open>load_dotenv\<close>
  (here the directory of \<^verbatim>\<open>spotify_cli.py\<close>, not the working directory), walks up to
  the root and returns the first \<^verbatim>\<open>.env\<close> that is a file, or the empty string.
\<close>

definition abs_dir :: "string list \<Rightarrow> path" where
  "abs_dir comps = ''/'' @ join ''/'' comps"

text \<open>The directories from a directory up to the root; the components come innermost first.\<close>

fun walk_up :: "string list \<Rightarrow> path list" where
  "walk_up [] = [''/'']"
| "walk_up (c # cs) = abs_dir (rev (c # cs)) # walk_up cs"

definition walk_to_root :: "string list \<Rightarrow> path list" where
  "walk_to_root comps = walk_up (rev comps)"

definition find_dotenv :: "world \<Rightarrow> path" where
  "find_dotenv w =
     (case List.find (\<lambda>p. files w p \<noteq> None)
             (map (\<lambda>dirname. os_path_join dirname ''.env'') (walk_to_root (script_dir w))) of
        None \<Rightarrow> []
      | Some p \<Rightarrow> p)"

text \<open>The variables \<^verbatim>\<open>python-dotenv\<close> reads at a path: none when there is no such file.\<close>

definition dotenv_values :: "world \<Rightarrow> path \<Rightarrow> (string \<rightharpoonup> string)" where
  "dotenv_values w p =
     (if p = [] then Map.empty
      else case files w p of None \<Rightarrow> Map.empty | Some vars \<Rightarrow> vars)"

text \<open>
  \<^verbatim>\<open>load_dotenv(dotenv_path)\<close> adds the variables it reads to \<^verbatim>\<open>os.environ\<close>; called
  as the program calls it (without \<^verbatim>\<open>override\<close>), a variable that is already set keeps
  its value. Without a path it reads the file that \<^verbatim>\<open>find_dotenv()\<close> returns.
\<close>

definition load_dotenv :: "world \<Rightarrow> path option \<Rightarrow> world" where
  "load_dotenv w dotenv_path =
     (let p = (case dotenv_path of None \<Rightarrow> find_dotenv w | Some p \<Rightarrow> p)
      in w\<lparr>environ := dotenv_values w p ++ environ w\<rparr>)"

text \<open>The exception \<^verbatim>\<open>input\<close> raises at end of input.\<close>

definition EOFError :: py_exception where
  "EOFError = PyException ''EOF when reading a line''"

section \<open>Module level: loading the environment\<close>

text \<open>
  \<^verbatim>\<open>
  if os.path.exists('.env'):
      load_dotenv()
  else:
      load_dotenv(os.path.join(os.path.expanduser('~'), '.spotify-cli.env'))
  \<close>
  The relative path \<^verbatim>\<open>'.env'\<close> is looked up in the working directory.
\<close>

definition load_environment :: "world \<Rightarrow> world" where
  "load_environment w =
     (if path_exists w (os_path_join (cwd w) ''.env'') then load_dotenv w None
      else load_dotenv w (Some (os_path_join (expanduser_home w) ''.spotify-cli.env'')))"

section \<open>SpotifyCLI\<close>

subsection \<open>__init__\<close>

text \<open>
  \<^verbatim>\<open>
  cache_path = os.path.join(os.path.expanduser('~'), '.spotify-cli-cache')
  self.sp = spotipy.Spotify(auth_manager=SpotifyOAuth(
      client_id=os.getenv('SPOTIFY_CLIENT_ID'),
      client_secret=os.getenv('SPOTIFY_CLIENT_SECRET'),
      redirect_uri=os.getenv('SPOTIFY_REDIRECT_URI', 'http://localhost:8888/callback'),
      scope='user-read-playback-state ... user-top-read',
      cache_path=cache_path))
  \<close>
\<close>

definition SpotifyCLI_config :: "world \<Rightarrow> oauth_config" where
  "SpotifyCLI_config w =
     (let cache_path = os_path_join (expanduser_home w) ''.spotify-cli-cache'' in
      \<lparr> client_id = getenv w ''SPOTIFY_CLIENT_ID'',
        client_secret = getenv w ''SPOTIFY_CLIENT_SECRET'',
        redirect_uri = getenv_default w ''SPOTIFY_REDIRECT_URI'' ''http://localhost:8888/callback'',
        scope = ''user-read-playback-state user-modify-playback-state user-read-currently-playing ''
              @ ''playlist-read-private playlist-modify-private playlist-modify-public ''
              @ ''user-library-read user-library-modify user-top-read'',
        cache_path = cache_path \<rparr>)"

text \<open>The constructors may raise; the exception leaves \<^verbatim>\<open>__init__\<close>.\<close>

definition SpotifyCLI_init :: "world \<Rightarrow> unit result" where
  "SpotifyCLI_init w =
     (case sp_construct w (SpotifyCLI_config w) of
        Inl e \<Rightarrow> (Inl e, [Construct_client (SpotifyCLI_config w)])
      | Inr _ \<Rightarrow> (Inr (), [Construct_client (SpotifyCLI_config w)]))"

subsection \<open>check_active_device\<close>

text \<open>
  \<^verbatim>\<open>
  def check_active_device(self, auto_open: bool = False) -> bool:
      devices = self.sp.devices()
      if not devices['devices']:
          print("No Spotify devices found!")
          print("\nTo use Spotify CLI, you need to:")
          print("   1. Open Spotify Desktop App, or")
          print("   2. Open Spotify on your phone, or")
          print("   3. Open Spotify Web Player")
          if auto_open:
              response = input("\nWould you like to open Spotify Web Player? (y/n): ")
              if response.lower() in ['y', 'yes']:
                  webbrowser.open('https://open.spotify.com')
                  print("\nWeb player opened! ...")
          else:
              print("\nTip: Use 'spotify play --open' to automatically open web player")
          return False
      active_devices = [d for d in devices['devices'] if d['is_active']]
      if not active_devices:
          print("Spotify devices found but none are active:")
          for device in devices['devices']:
              print(f"   {device['name']} ({device['type']})")
          print("\nOpen Spotify on one of these devices and start playing something first.")
          return False
      return True
  \<close>
\<close>

definition no_devices_help :: "event list" where
  "no_devices_help =
     [Print Out_no_spotify_devices_found, Print Out_to_use_you_need_to,
      Print Out_open_desktop_app, Print Out_open_on_phone, Print Out_open_web_player]"

definition check_active_device :: "world \<Rightarrow> bool \<Rightarrow> bool result" where
  "check_active_device w auto_open =
     (case sp_devices w of
        Inl e \<Rightarrow> (Inl e, [Call Api_devices])
      | Inr devices \<Rightarrow>
          if devices = [] then
            (if auto_open then
               (case stdin_line w of
                  None \<Rightarrow> (Inl EOFError, Call Api_devices # no_devices_help @ [Input_prompt])
                | Some response \<Rightarrow>
                    if lower response \<in> set [''y'', ''yes''] then
                      (Inr False, Call Api_devices # no_devices_help @
                         [Input_prompt, Webbrowser_open ''https://open.spotify.com'',
                          Print Out_web_player_opened])
                    else (Inr False, Call Api_devices # no_devices_help @ [Input_prompt]))
             else (Inr False, Call Api_devices # no_devices_help @ [Print Out_tip_play_open]))
          else
            (let active_devices = filter device_is_active devices in
             if active_devices = [] then
               (Inr False,
                [Call Api_devices, Print Out_none_active] @
                map (\<lambda>device. Print (Out_device_bullet (device_name device) (device_type device)))
                  devices @
                [Print Out_start_playing_first])
             else (Inr True, [Call Api_devices])))"

subsection \<open>current_playback\<close>

definition current_playback :: "world \<Rightarrow> unit result" where
  "current_playback w =
     (case sp_current_playback w of
        Inl e \<Rightarrow> (Inl e, [Call Api_current_playback])
      | Inr None \<Rightarrow> (Inr (), [Call Api_current_playback, Print Out_nothing_playing])
      | Inr (Some current) \<Rightarrow>
          (case playback_item current of
             None \<Rightarrow> (Inr (), [Call Api_current_playback, Print Out_nothing_playing])
           | Some track \<Rightarrow>
               (let artists = join '', '' (map artist_name (track_artists track));
                    progress = playback_progress_ms current div 1000;
                    duration = track_duration_ms track div 1000;
                    is_playing = playback_is_playing current
                in (Inr (),
                    [Call Api_current_playback,
                     Print (Out_now is_playing),
                     Print (Out_now_track (track_name track)),
                     Print (Out_now_artist artists),
                     Print (Out_now_album (album_name (track_album track))),
                     Print (Out_now_progress (progress div 60) (progress mod 60)
                              (duration div 60) (duration mod 60))] @
                    (case playback_device current of
                       None \<Rightarrow> []
                     | Some device \<Rightarrow> [Print (Out_now_device (device_name device))])))))"

subsection \<open>play, pause, next_track, previous_track\<close>

text \<open>
  \<^verbatim>\<open>
  def play(self, uri: Optional[str] = None, auto_open: bool = False):
      if not self.check_active_device(auto_open):
          return
      try:
          if uri:
              self.sp.start_playback(uris=[uri])
              print("Playing track")
          else:
              self.sp.start_playback()
              print("Playback resumed")
      except Exception as e:
          print(f"Error: {e}")
  \<close>
  The guard is called outside the \<^verbatim>\<open>try\<close>: an exception of the guard leaves \<^verbatim>\<open>play\<close>.
  \<^verbatim>\<open>if uri\<close> is false for \<^verbatim>\<open>None\<close> and for the empty string; \<open>Some [u]\<close> stands for
  \<^verbatim>\<open>uris=[uri]\<close> and \<open>None\<close> for the call without arguments.
\<close>

definition play :: "world \<Rightarrow> string option \<Rightarrow> bool \<Rightarrow> unit result" where
  "play w uri auto_open =
     (case check_active_device w auto_open of
        (Inl e, evs) \<Rightarrow> (Inl e, evs)
      | (Inr False, evs) \<Rightarrow> (Inr (), evs)
      | (Inr True, evs) \<Rightarrow>
          (case (if truthy uri then uri else None) of
             Some u \<Rightarrow>
               (case sp_start_playback w (Some [u]) of
                  Inr _ \<Rightarrow>
                    (Inr (), evs @ [Call (Api_start_playback (Some [u])), Print Out_playing_track])
                | Inl e \<Rightarrow>
                    (Inr (), evs @ [Call (Api_start_playback (Some [u])), Print (Out_error e)]))
           | None \<Rightarrow>
               (case sp_start_playback w None of
                  Inr _ \<Rightarrow>
                    (Inr (), evs @ [Call (Api_start_playback None), Print Out_playback_resumed])
                | Inl e \<Rightarrow>
                    (Inr (), evs @ [Call (Api_start_playback None), Print (Out_error e)]))))"

definition pause :: "world \<Rightarrow> unit result" where
  "pause w =
     (case sp_pause_playback w of
        Inr _ \<Rightarrow> (Inr (), [Call Api_pause_playback, Print Out_playback_paused])
      | Inl e \<Rightarrow> (Inr (), [Call Api_pause_playback, Print (Out_error e)]))"

definition next_track :: "world \<Rightarrow> unit result" where
  "next_track w =
     (case sp_next_track w of
        Inr _ \<Rightarrow> (Inr (), [Call Api_next_track, Print Out_skipped_to_next])
      | Inl e \<Rightarrow> (Inr (), [Call Api_next_track, Print (Out_error e)]))"

definition previous_track :: "world \<Rightarrow> unit result" where
  "previous_track w =
     (case sp_previous_track w of
        Inr _ \<Rightarrow> (Inr (), [Call Api_previous_track, Print Out_back_to_previous])
      | Inl e \<Rightarrow> (Inr (), [Call Api_previous_track, Print (Out_error e)]))"

subsection \<open>search\<close>

text \<open>
  \<^verbatim>\<open>for i, x in enumerate(xs, 1)\<close> runs over \<open>enumerate 1 xs\<close>. A search type other
  than the three below prints nothing.
\<close>

definition search :: "world \<Rightarrow> string \<Rightarrow> string \<Rightarrow> int \<Rightarrow> unit result" where
  "search w query ty limit =
     (case sp_search w query ty limit of
        Inl e \<Rightarrow> (Inl e, [Call (Api_search query ty limit)])
      | Inr results \<Rightarrow>
          (Inr (),
           Call (Api_search query ty limit) #
           (if ty = ''track'' then
              (let tracks = results_tracks results in
               if tracks = [] then [Print Out_no_tracks_found]
               else Print (Out_search_results query) #
                    concat (map (\<lambda>(i, track).
                      [Print (Out_numbered i (track_name track)
                                (join '', '' (map artist_name (track_artists track)))),
                       Print (Out_uri (track_uri track))]) (enumerate 1 tracks)))
            else if ty = ''artist'' then
              (let artists = results_artists results in
               if artists = [] then [Print Out_no_artists_found]
               else Print (Out_artist_results query) #
                    concat (map (\<lambda>(i, artist).
                      [Print (Out_numbered_name i (artist_name artist)),
                       Print (Out_followers (artist_followers_total artist)),
                       Print (Out_uri (artist_uri artist))]) (enumerate 1 artists)))
            else if ty = ''album'' then
              (let albums = results_albums results in
               if albums = [] then [Print Out_no_albums_found]
               else Print (Out_album_results query) #
                    concat (map (\<lambda>(i, album).
                      [Print (Out_numbered i (album_name album)
                                (join '', '' (map artist_name (album_artists album)))),
                       Print (Out_release (album_release_date album)),
                       Print (Out_uri (album_uri album))]) (enumerate 1 albums)))
            else [])))"

subsection \<open>my_playlists\<close>

text \<open>
  \<^verbatim>\<open>
  def my_playlists(self, limit: int = 20):
      playlists = self.sp.current_user_playlists(limit=limit)
      print("\nYour Playlists:\n")
      for i, playlist in enumerate(playlists['items'], 1):
          print(f"{i}. {playlist['name']}")
          print(f"   Tracks: {playlist['tracks']['total']}")
          print(f"   URI: {playlist['uri']}\n")
  \<close>
  There is no \<^verbatim>\<open>try\<close> here: an exception of the call leaves the method.
\<close>

definition my_playlists :: "world \<Rightarrow> int \<Rightarrow> unit result" where
  "my_playlists w limit =
     (case sp_current_user_playlists w limit of
        Inl e \<Rightarrow> (Inl e, [Call (Api_current_user_playlists limit)])
      | Inr items \<Rightarrow>
          (Inr (),
           [Call (Api_current_user_playlists limit), Print Out_your_playlists] @
           concat (map (\<lambda>(i, playlist).
             [Print (Out_numbered_name i (summary_name playlist)),
              Print (Out_tracks_total (summary_tracks_total playlist)),
              Print (Out_uri (summary_uri playlist))]) (enumerate 1 items))))"

subsection \<open>playlist_tracks\<close>

text \<open>
  \<^verbatim>\<open>
  def playlist_tracks(self, playlist_uri: str):
      playlist = self.sp.playlist(playlist_uri)
      print(f"\n{playlist['name']}\n")
      for i, item in enumerate(playlist['tracks']['items'], 1):
          track = item['track']
          if track:
              artists = ', '.join([artist['name'] for artist in track['artists']])
              print(f"{i}. {track['name']} - {artists}")
  \<close>
  The loop, with its counter \<open>i\<close>: a null track prints nothing, and the counter moves on.
\<close>

fun playlist_tracks_loop :: "nat \<Rightarrow> track option list \<Rightarrow> event list" where
  "playlist_tracks_loop i [] = []"
| "playlist_tracks_loop i (item # items) =
     (case item of
        None \<Rightarrow> playlist_tracks_loop (i + 1) items
      | Some track \<Rightarrow>
          (let artists = join '', '' (map artist_name (track_artists track)) in
           Print (Out_numbered i (track_name track) artists) #
           playlist_tracks_loop (i + 1) items))"

definition playlist_tracks :: "world \<Rightarrow> string \<Rightarrow> unit result" where
  "playlist_tracks w playlist_uri =
     (case sp_playlist w playlist_uri of
        Inl e \<Rightarrow> (Inl e, [Call (Api_playlist playlist_uri)])
      | Inr playlist \<Rightarrow>
          (Inr (),
           [Call (Api_playlist playlist_uri), Print (Out_playlist_title (playlist_name playlist))] @
           playlist_tracks_loop 1 (playlist_items playlist)))"

subsection \<open>volume\<close>

text \<open>
  \<^verbatim>\<open>
  def volume(self, level: int):
      try:
          level = max(0, min(100, level))
          self.sp.volume(level)
          print(f"Volume set to {level}%")
      except Exception as e:
          print(f"Error: {e}")
  \<close>
\<close>

definition volume :: "world \<Rightarrow> int \<Rightarrow> unit result" where
  "volume w level =
     (let level = max 0 (min 100 level) in
      case sp_volume w level of
        Inr _ \<Rightarrow> (Inr (), [Call (Api_volume level), Print (Out_volume_set level)])
      | Inl e \<Rightarrow> (Inr (), [Call (Api_volume level), Print (Out_error e)]))"

text \<open>The levels sent to the volume endpoint in a run, in order.\<close>

fun volume_sent :: "event list \<Rightarrow> int list" where
  "volume_sent [] = []"
| "volume_sent (Call (Api_volume l) # es) = l # volume_sent es"
| "volume_sent (_ # es) = volume_sent es"

subsection \<open>devices\<close>

text \<open>
  \<^verbatim>\<open>
  def devices(self):
      devices = self.sp.devices()
      if not devices['devices']:
          print("No devices found")
          return
      print("\nAvailable Devices:\n")
      for device in devices['devices']:
          active = "+" if device['is_active'] else " "
          print(f"[{active}] {device['name']} ({device['type']})")
          print(f"    ID: {device['id']}\n")
  \<close>
\<close>

definition devices :: "world \<Rightarrow> unit result" where
  "devices w =
     (case sp_devices w of
        Inl e \<Rightarrow> (Inl e, [Call Api_devices])
      | Inr devices \<Rightarrow>
          if devices = [] then (Inr (), [Call Api_devices, Print Out_no_devices_found])
          else
            (Inr (),
             [Call Api_devices, Print Out_available_devices] @
             concat (map (\<lambda>device.
               [Print (Out_device_line (device_is_active device) (device_name device)
                         (device_type device)),
                Print (Out_device_id (device_id device))]) devices)))"

subsection \<open>top_tracks\<close>

definition range_names :: "(string \<times> string) list" where
  "range_names =
     [(''short_term'', ''Last 4 Weeks''),
      (''medium_term'', ''Last 6 Months''),
      (''long_term'', ''All Time'')]"

definition top_tracks :: "world \<Rightarrow> int \<Rightarrow> string \<Rightarrow> unit result" where
  "top_tracks w limit time_range =
     (case sp_current_user_top_tracks w limit time_range of
        Inl e \<Rightarrow> (Inl e, [Call (Api_current_user_top_tracks limit time_range)])
      | Inr items \<Rightarrow>
          (Inr (),
           [Call (Api_current_user_top_tracks limit time_range),
            Print (Out_your_top_tracks
                     (case map_of range_names time_range of
                        None \<Rightarrow> time_range
                      | Some name \<Rightarrow> name))] @
           map (\<lambda>(i, track).
             Print (Out_numbered i (track_name track)
                      (join '', '' (map artist_name (track_artists track)))))
             (enumerate 1 items)))"

section \<open>main\<close>

text \<open>
  What \<^verbatim>\<open>parser.parse_args()\<close> returns: \<^verbatim>\<open>args.command\<close> is \<^verbatim>\<open>None\<close> when no command
  was given, and otherwise one of the eleven subcommands with its parsed arguments.
\<close>

datatype command =
    Cmd_now
  | Cmd_play "string option" bool
      \<comment> \<open>\<^verbatim>\<open>args.uri\<close>, \<^verbatim>\<open>args.open\<close>\<close>
  | Cmd_pause
  | Cmd_next
  | Cmd_prev
  | Cmd_volume int
  | Cmd_search string string int
      \<comment> \<open>\<^verbatim>\<open>args.query\<close>, \<^verbatim>\<open>args.type\<close>, \<^verbatim>\<open>args.limit\<close>\<close>
  | Cmd_playlists int
  | Cmd_playlist string
  | Cmd_devices
  | Cmd_top int string
      \<comment> \<open>\<^verbatim>\<open>args.limit\<close>, \<^verbatim>\<open>args.range\<close>\<close>

text \<open>The chain of \<^verbatim>\<open>if args.command == ...\<close> inside the \<^verbatim>\<open>try\<close> of \<^verbatim>\<open>main\<close>.\<close>

fun dispatch :: "world \<Rightarrow> command \<Rightarrow> unit result" where
  "dispatch w Cmd_now = current_playback w"
| "dispatch w (Cmd_play uri opn) = play w uri opn"
| "dispatch w Cmd_pause = pause w"
| "dispatch w Cmd_next = next_track w"
| "dispatch w Cmd_prev = previous_track w"
| "dispatch w (Cmd_volume level) = volume w level"
| "dispatch w (Cmd_search query ty limit) = search w query ty limit"
| "dispatch w (Cmd_playlists limit) = my_playlists w limit"
| "dispatch w (Cmd_playlist uri) = playlist_tracks w uri"
| "dispatch w Cmd_devices = devices w"
| "dispatch w (Cmd_top limit rng) = top_tracks w limit (rng @ ''_term'')"

text \<open>
  \<^verbatim>\<open>
  args = parser.parse_args()
  if not args.command:
      parser.print_help()
      return
  if not os.getenv('SPOTIFY_CLIENT_ID') or not os.getenv('SPOTIFY_CLIENT_SECRET'):
      print("Error: Spotify credentials not found!")
      ... (six more lines)
      sys.exit(1)
  try:
      cli = SpotifyCLI()
      if args.command == 'now': ...
  except Exception as e:
      print(f"Error: {e}")
      sys.exit(1)
  \<close>
  The result is the exit status of the process (0 when \<^verbatim>\<open>main\<close> returns) and the
  effects of the run. An exception of \<^verbatim>\<open>SpotifyCLI()\<close> is raised inside the \<^verbatim>\<open>try\<close>,
  before the command runs.
\<close>

definition credentials_help :: "world \<Rightarrow> event list" where
  "credentials_help w =
     [Print Out_credentials_not_found, Print Out_create_env_file, Print Out_sample_client_id,
      Print Out_sample_client_secret, Print Out_sample_redirect_uri,
      Print (Out_env_location (os_path_join (expanduser_home w) ''.spotify-cli.env'')),
      Print Out_get_credentials_at]"

definition main :: "world \<Rightarrow> command option \<Rightarrow> nat \<times> event list" where
  "main w args =
     (case args of
        None \<Rightarrow> (0, [Print Out_usage])
      | Some command \<Rightarrow>
          if \<not> truthy (getenv w ''SPOTIFY_CLIENT_ID'') \<or>
             \<not> truthy (getenv w ''SPOTIFY_CLIENT_SECRET'')
          then (1, credentials_help w)
          else
            (case SpotifyCLI_init w of
               (Inl e, evs0) \<Rightarrow> (1, evs0 @ [Print (Out_error e)])
             | (Inr _, evs0) \<Rightarrow>
                 (case dispatch w command of
                    (Inr _, evs) \<Rightarrow> (0, evs0 @ evs)
                  | (Inl e, evs) \<Rightarrow> (1, evs0 @ evs @ [Print (Out_error e)]))))"

text \<open>A run of the program: the module-level code, then \<^verbatim>\<open>main\<close>.\<close>

definition program :: "world \<Rightarrow> command option \<Rightarrow> nat \<times> event list" where
  "program w args = main (load_environment w) args"

subsection \<open>Observations on a run\<close>

text \<open>The requests made to the service in a run, in order.\<close>

fun api_calls :: "event list \<Rightarrow> api_call list" where
  "api_calls [] = []"
| "api_calls (Call c # es) = c # api_calls es"
| "api_calls (_ # es) = api_calls es"

text \<open>Whether a request is one to the playback-start endpoint.\<close>

fun is_start_playback :: "api_call \<Rightarrow> bool" where
  "is_start_playback (Api_start_playback _) = True"
| "is_start_playback _ = False"

text \<open>
  Whether an effect is a print: a run of prints only has constructed no client, made no
  request, read no input and opened no browser.
\<close>

fun is_print :: "event \<Rightarrow> bool" where
  "is_print (Print _) = True"
| "is_print _ = False"

text \<open>The line \<^verbatim>\<open>playlist_tracks\<close> prints for the track \<open>t\<close> under the number \<open>i\<close>.\<close>

definition track_line :: "nat \<Rightarrow> track \<Rightarrow> event" where
  "track_line i t =
     Print (Out_numbered i (track_name t) (join '', '' (map artist_name (track_artists t))))"

subsection \<open>Sample environments\<close>

definition phone :: device where
  "phone = \<lparr> device_id = ''d1'', device_name = ''Phone'', device_type = ''Smartphone'',
             device_is_active = False \<rparr>"

definition laptop :: device where
  "laptop = \<lparr> device_id = ''d2'', device_name = ''Laptop'', device_type = ''Computer'',
              device_is_active = False \<rparr>"

definition song :: "string \<Rightarrow> string list \<Rightarrow> track" where
  "song name artists =
     \<lparr> track_name = name,
       track_artists =
         map (\<lambda>a. \<lparr> artist_name = a, artist_followers_total = 0, artist_uri = [] \<rparr>) artists,
       track_album =
         \<lparr> album_name = ''Album'', album_artists = [], album_release_date = ''2020'',
           album_uri = [] \<rparr>,
       track_duration_ms = 180000,
       track_uri = ''spotify:track:'' @ name \<rparr>"

text \<open>
  A run from \<^verbatim>\<open>/work\<close>, which holds a \<^verbatim>\<open>.env\<close> file, of the program installed in
  \<^verbatim>\<open>/opt/spotify-cli\<close>; the home directory holds a \<^verbatim>\<open>.spotify-cli.env\<close> file. Both
  credentials are set in the process environment, the client is constructed unless the
  redirect URI is empty, the service knows no device and every request succeeds.
\<close>

definition demo_world :: world where
  "demo_world =
     \<lparr> environ = [''SPOTIFY_CLIENT_ID'' \<mapsto> ''id'', ''SPOTIFY_CLIENT_SECRET'' \<mapsto> ''secret'',
                  ''HOME'' \<mapsto> ''/home/user''],
       cwd = ''/work'',
       pw_dir = Some ''/home/user'',
       script_dir = [''opt'', ''spotify-cli''],
       files =
         [''/work/.env'' \<mapsto>
            [''SPOTIFY_CLIENT_ID'' \<mapsto> ''work-id'', ''SPOTIFY_CLIENT_SECRET'' \<mapsto> ''work-secret''],
          ''/home/user/.spotify-cli.env'' \<mapsto>
            [''SPOTIFY_CLIENT_ID'' \<mapsto> ''home-id'', ''SPOTIFY_CLIENT_SECRET'' \<mapsto> ''home-secret'']],
       stdin_line = Some ''Yes'',
       sp_construct = (\<lambda>config.
          if redirect_uri config = [] then Inl (PyException ''No redirect_uri'') else Inr ()),
       sp_devices = Inr [],
       sp_current_playback = Inr None,
       sp_start_playback = (\<lambda>uris. Inr ()),
       sp_pause_playback = Inr (),
       sp_next_track = Inr (),
       sp_previous_track = Inr (),
       sp_search = (\<lambda>query ty limit.
          Inr \<lparr> results_tracks = [], results_artists = [], results_albums = [] \<rparr>),
       sp_current_user_playlists = (\<lambda>limit. Inr []),
       sp_playlist = (\<lambda>uri.
          Inr \<lparr> playlist_name = ''Mix'',
                playlist_items = [Some (song ''One'' [''A'', ''B'']), None, Some (song ''Three'' [''C''])] \<rparr>),
       sp_volume = (\<lambda>level. Inr ()),
       sp_current_user_top_tracks = (\<lambda>limit time_range. Inr []) \<rparr>"

text \<open>The same run, with two known devices of which none is active.\<close>

definition idle_devices_world :: world where
  "idle_devices_world = demo_world\<lparr>sp_devices := Inr [phone, laptop]\<rparr>"

text \<open>The same run, with the client secret missing from the environment.\<close>

definition no_secret_world :: world where
  "no_secret_world = demo_world\<lparr>environ := [''SPOTIFY_CLIENT_ID'' \<mapsto> ''id'']\<rparr>"

text \<open>The same run, with an empty process environment.\<close>

definition bare_world :: world where
  "bare_world = demo_world\<lparr>environ := Map.empty\<rparr>"

text \<open>The same run, where the service rejects the request for the user's playlists.\<close>

definition playlists_failing_world :: world where
  "playlists_failing_world =
     demo_world\<lparr>sp_current_user_playlists := (\<lambda>limit. Inl (PyException ''http status: 401''))\<rparr>"

text \<open>The same run, with the standard input at its end.\<close>

definition closed_stdin_world :: world where
  "closed_stdin_world = demo_world\<lparr>stdin_line := None\<rparr>"

text \<open>The same run, with no credentials in the process environment: they are in the files.\<close>

definition work_dir_world :: world where
  "work_dir_world = demo_world\<lparr>environ := [''HOME'' \<mapsto> ''/home/user'']\<rparr>"

section \<open>Auxiliary facts\<close>

lemma api_calls_prints [simp]: "api_calls (map (\<lambda>x. Print (f x)) xs @ es) = api_calls es"
  by (induction xs) simp_all

lemma enumerate_index: "enumerate i xs = map (\<lambda>k. (i + k, xs ! k)) [0 ..< length xs]"
  by (rule nth_equalityI) (simp_all add: nth_enumerate_eq)

lemma playlist_tracks_loop_enumerate:
  "playlist_tracks_loop i items =
     List.map_filter (\<lambda>(n, item). map_option (track_line n) item) (enumerate i items)"
  by (induction items arbitrary: i)
     (auto simp: List.map_filter_simps track_line_def split: option.splits)

lemma length_playlist_tracks_loop:
  "length (playlist_tracks_loop i items) = length (filter (\<lambda>item. item \<noteq> None) items)"
  by (induction items arbitrary: i) (auto split: option.splits)

section \<open>The play command and the device guard\<close>

text \<open>
  Claim C1. When the service knows devices but none of them is active, the guard
  \<open>check_active_device\<close> returns \<^verbatim>\<open>False\<close> after printing the list of known devices and
  the remediation text; \<open>play\<close> then returns normally with exactly the effects of the
  guard: its only request is the device listing, and no request to the playback-start
  endpoint is made, whatever the URI and the \<^verbatim>\<open>--open\<close> flag.
\<close>

theorem play_none_active_never_starts_playback:
  assumes "sp_devices w = Inr ds" and "ds \<noteq> []" and "\<forall>d \<in> set ds. \<not> device_is_active d"
  shows "check_active_device w auto_open =
           (Inr False,
            [Call Api_devices, Print Out_none_active] @
            map (\<lambda>d. Print (Out_device_bullet (device_name d) (device_type d))) ds @
            [Print Out_start_playing_first])
       \<and> play w uri auto_open = (Inr (), snd (check_active_device w auto_open))
       \<and> api_calls (snd (play w uri auto_open)) = [Api_devices]
       \<and> \<not> list_ex is_start_playback (api_calls (snd (play w uri auto_open)))"
proof -
  from assms(3) have none: "filter device_is_active ds = []"
    by (simp add: filter_empty_conv)
  have guard: "check_active_device w auto_open =
           (Inr False,
            [Call Api_devices, Print Out_none_active] @
            map (\<lambda>d. Print (Out_device_bullet (device_name d) (device_type d))) ds @
            [Print Out_start_playing_first])"
    using assms(1,2) none by (simp add: check_active_device_def)
  have play: "play w uri auto_open = (Inr (), snd (check_active_device w auto_open))"
    by (simp add: play_def guard)
  show ?thesis
    unfolding play by (simp add: guard)
qed

theorem play_none_active_never_starts_playback_witness:
  "sp_devices idle_devices_world = Inr [phone, laptop]
   \<and> [phone, laptop] \<noteq> []
   \<and> \<not> device_is_active phone
   \<and> \<not> device_is_active laptop
   \<and> play idle_devices_world (Some ''spotify:track:1'') True =
       (Inr (),
        [Call Api_devices, Print Out_none_active,
         Print (Out_device_bullet ''Phone'' ''Smartphone''),
         Print (Out_device_bullet ''Laptop'' ''Computer''),
         Print Out_start_playing_first])
   \<and> \<not> list_ex is_start_playback
         (api_calls (snd (play idle_devices_world (Some ''spotify:track:1'') True)))"
proof -
  have h1: "sp_devices idle_devices_world = Inr [phone, laptop]"
    by (simp add: idle_devices_world_def demo_world_def)
  have h2: "[phone, laptop] \<noteq> []"
    by simp
  have h3: "\<forall>d \<in> set [phone, laptop]. \<not> device_is_active d"
    by (simp add: phone_def laptop_def)
  show ?thesis
    using play_none_active_never_starts_playback
            [OF h1 h2 h3, of True "Some ''spotify:track:1''"] h1 h3
    by (simp add: phone_def laptop_def)
qed

text \<open>
  With \<^verbatim>\<open>auto_open\<close> set and an empty device list, the guard makes one request, the
  device listing, and never a second one; it never returns \<^verbatim>\<open>True\<close>; and whenever the
  prompt is answered it returns \<^verbatim>\<open>False\<close>, the web player being opened exactly when
  the answer, in lower case, is \<^verbatim>\<open>y\<close> or \<^verbatim>\<open>yes\<close>. So every run that opens the web
  player returns \<^verbatim>\<open>False\<close>.
\<close>

lemma guard_auto_open_answered:
  assumes "sp_devices w = Inr []"
  shows "api_calls (snd (check_active_device w True)) = [Api_devices]
       \<and> fst (check_active_device w True) \<noteq> Inr True
       \<and> (\<forall>response. stdin_line w = Some response \<longrightarrow>
            fst (check_active_device w True) = Inr False
          \<and> (Webbrowser_open ''https://open.spotify.com'' \<in> set (snd (check_active_device w True))
               \<longleftrightarrow> lower response \<in> {''y'', ''yes''}))
       \<and> (Webbrowser_open ''https://open.spotify.com'' \<in> set (snd (check_active_device w True))
            \<longrightarrow> fst (check_active_device w True) = Inr False)"
  using assms
  by (auto simp: check_active_device_def no_devices_help_def split: option.splits)

text \<open>
  Claim C5. The guard is to return \<^verbatim>\<open>False\<close> in every call with \<^verbatim>\<open>auto_open\<close> set and
  an empty device list. The code misses the case where the prompt cannot be answered: in
  the run below the standard input is at its end, \<^verbatim>\<open>input\<close> raises \<^verbatim>\<open>EOFError\<close>, and
  the exception leaves the guard after the prompt instead of the return of \<^verbatim>\<open>False\<close>.
  It leaves \<^verbatim>\<open>play\<close> too, which calls the guard outside its \<^verbatim>\<open>try\<close>, and the handler
  of \<open>main\<close> ends the process with status 1. No second request is made and the web
  player is not opened.
\<close>

theorem guard_auto_open_raises_at_end_of_input:
  "sp_devices closed_stdin_world = Inr []
   \<and> stdin_line closed_stdin_world = None
   \<and> check_active_device closed_stdin_world True =
       (Inl EOFError,
        [Call Api_devices, Print Out_no_spotify_devices_found, Print Out_to_use_you_need_to,
         Print Out_open_desktop_app, Print Out_open_on_phone, Print Out_open_web_player,
         Input_prompt])
   \<and> fst (check_active_device closed_stdin_world True) \<noteq> Inr False
   \<and> fst (play closed_stdin_world None True) = Inl EOFError
   \<and> fst (program closed_stdin_world (Some (Cmd_play None True))) = 1"
proof -
  have guard: "check_active_device closed_stdin_world True =
       (Inl EOFError,
        [Call Api_devices, Print Out_no_spotify_devices_found, Print Out_to_use_you_need_to,
         Print Out_open_desktop_app, Print Out_open_on_phone, Print Out_open_web_player,
         Input_prompt])"
    by (simp add: closed_stdin_world_def demo_world_def check_active_device_def
          no_devices_help_def)
  have load: "load_environment closed_stdin_world = closed_stdin_world"
    by (simp add: closed_stdin_world_def demo_world_def load_environment_def load_dotenv_def
          path_exists_def os_path_join_def find_dotenv_def walk_to_root_def abs_dir_def
          dotenv_values_def)
  have creds: "truthy (getenv closed_stdin_world ''SPOTIFY_CLIENT_ID'')"
    "truthy (getenv closed_stdin_world ''SPOTIFY_CLIENT_SECRET'')"
    "sp_construct closed_stdin_world (SpotifyCLI_config closed_stdin_world) = Inr ()"
    by (simp_all add: closed_stdin_world_def demo_world_def truthy_def getenv_def
          SpotifyCLI_config_def getenv_default_def)
  have play: "fst (play closed_stdin_world None True) = Inl EOFError"
    by (simp add: play_def guard)
  have "fst (program closed_stdin_world (Some (Cmd_play None True))) = 1"
    by (simp add: program_def load main_def creds SpotifyCLI_init_def play_def guard)
  with guard play show ?thesis
    by (simp add: closed_stdin_world_def demo_world_def EOFError_def)
qed

section \<open>The volume command\<close>

text \<open>
  Claim C2. For every integer \<open>level\<close>, \<open>volume\<close> sends exactly one level to the volume
  endpoint, and that level is \<open>max 0 (min 100 level)\<close>, whatever the service answers:
  it lies between 0 and 100, it is \<open>level\<close> itself when \<open>level\<close> lies between 0 and
  100, and the inputs -5, 150 and 50 are sent as 0, 100 and 50.
\<close>

theorem volume_sends_clamped_level:
  "volume_sent (snd (volume w level)) = [max 0 (min 100 level)]
   \<and> volume_sent (snd (volume w level)) =
       [if level < 0 then 0 else if 100 < level then 100 else level]
   \<and> volume_sent (snd (volume w (- 5))) = [0]
   \<and> volume_sent (snd (volume w 150)) = [100]
   \<and> volume_sent (snd (volume w 50)) = [50]"
  by (simp add: volume_def Let_def split: sum.splits)

theorem volume_sends_clamped_level_witness:
  "volume_sent (snd (volume demo_world 150)) = [100]
   \<and> volume demo_world 150 = (Inr (), [Call (Api_volume 100), Print (Out_volume_set 100)])"
  using volume_sends_clamped_level [of demo_world 150]
  by (simp add: volume_def demo_world_def)

section \<open>The devices command\<close>

text \<open>
  Claim C4. When both credentials are set, the construction of the client succeeds and
  the service answers the device listing with an empty list, the \<^verbatim>\<open>devices\<close> command
  constructs the client, makes the
  device-listing request, prints "No devices found" and nothing else, makes no further
  request, and the process exits with status 0.
\<close>

theorem devices_empty_list:
  assumes "truthy (environ w ''SPOTIFY_CLIENT_ID'')"
    and "truthy (environ w ''SPOTIFY_CLIENT_SECRET'')"
    and "sp_construct w (SpotifyCLI_config w) = Inr ()"
    and "sp_devices w = Inr []"
  shows "devices w = (Inr (), [Call Api_devices, Print Out_no_devices_found])
       \<and> main w (Some Cmd_devices) =
           (0, [Construct_client (SpotifyCLI_config w), Call Api_devices,
                Print Out_no_devices_found])
       \<and> api_calls (snd (main w (Some Cmd_devices))) = [Api_devices]"
  using assms by (simp add: main_def getenv_def devices_def SpotifyCLI_init_def)

theorem devices_empty_list_witness:
  "truthy (environ demo_world ''SPOTIFY_CLIENT_ID'')
   \<and> truthy (environ demo_world ''SPOTIFY_CLIENT_SECRET'')
   \<and> sp_construct demo_world (SpotifyCLI_config demo_world) = Inr ()
   \<and> sp_devices demo_world = Inr []
   \<and> fst (main demo_world (Some Cmd_devices)) = 0
   \<and> api_calls (snd (main demo_world (Some Cmd_devices))) = [Api_devices]"
proof -
  have h1: "truthy (environ demo_world ''SPOTIFY_CLIENT_ID'')"
    by (simp add: demo_world_def truthy_def)
  have h2: "truthy (environ demo_world ''SPOTIFY_CLIENT_SECRET'')"
    by (simp add: demo_world_def truthy_def)
  have h3: "sp_construct demo_world (SpotifyCLI_config demo_world) = Inr ()"
    by (simp add: demo_world_def SpotifyCLI_config_def getenv_default_def)
  have h4: "sp_devices demo_world = Inr []"
    by (simp add: demo_world_def)
  show ?thesis
    using devices_empty_list [OF h1 h2 h3 h4] h1 h2 h3 h4 by simp
qed

section \<open>Credentials and usage in main\<close>

text \<open>
  Claim C3. When a command is given and \<^verbatim>\<open>SPOTIFY_CLIENT_ID\<close> or
  \<^verbatim>\<open>SPOTIFY_CLIENT_SECRET\<close> is unset, \<open>main\<close> prints the configuration-error message
  and exits with status 1; every effect of the run is a print, so the client is not
  constructed and no request is made. This holds for every command and all its arguments.
\<close>

theorem missing_credentials_exit_before_client:
  assumes "environ w ''SPOTIFY_CLIENT_ID'' = None \<or> environ w ''SPOTIFY_CLIENT_SECRET'' = None"
  shows "main w (Some command) = (1, credentials_help w)
       \<and> hd (snd (main w (Some command))) = Print Out_credentials_not_found
       \<and> list_all is_print (snd (main w (Some command)))
       \<and> api_calls (snd (main w (Some command))) = []"
  using assms by (auto simp: main_def getenv_def truthy_def credentials_help_def)

theorem missing_credentials_exit_before_client_witness:
  "(environ no_secret_world ''SPOTIFY_CLIENT_ID'' = None
      \<or> environ no_secret_world ''SPOTIFY_CLIENT_SECRET'' = None)
   \<and> fst (main no_secret_world (Some (Cmd_play (Some ''spotify:track:1'') True))) = 1
   \<and> list_all is_print (snd (main no_secret_world (Some (Cmd_play (Some ''spotify:track:1'') True))))"
proof -
  have h: "environ no_secret_world ''SPOTIFY_CLIENT_ID'' = None
         \<or> environ no_secret_world ''SPOTIFY_CLIENT_SECRET'' = None"
    by (simp add: no_secret_world_def demo_world_def)
  note run = missing_credentials_exit_before_client
                [OF h, of "Cmd_play (Some ''spotify:track:1'') True"]
  from run have "fst (main no_secret_world (Some (Cmd_play (Some ''spotify:track:1'') True))) = 1"
    by simp
  moreover from run
  have "list_all is_print
          (snd (main no_secret_world (Some (Cmd_play (Some ''spotify:track:1'') True))))"
    by blast
  ultimately show ?thesis
    using h by blast
qed

text \<open>
  Claim C8. When no command is given, \<open>main\<close> prints the usage and returns, so the
  process exits with status 0, in every environment: the credentials are not looked at,
  and the exit with status 1 for missing credentials is not reached. The same holds for
  the whole program, after the module-level loading of the environment.
\<close>

theorem no_command_prints_usage:
  "main w None = (0, [Print Out_usage]) \<and> program w None = (0, [Print Out_usage])"
  by (simp add: main_def program_def)

theorem no_command_prints_usage_witness:
  "environ bare_world ''SPOTIFY_CLIENT_ID'' = None
   \<and> environ bare_world ''SPOTIFY_CLIENT_SECRET'' = None
   \<and> main bare_world None = (0, [Print Out_usage])
   \<and> fst (main bare_world (Some Cmd_now)) = 1"
  using no_command_prints_usage [of bare_world]
  by (simp add: bare_world_def demo_world_def main_def getenv_def truthy_def)

section \<open>The playlists command\<close>

text \<open>
  Claim C6, as the code has it. With both credentials set and the client constructed,
  the \<^verbatim>\<open>playlists\<close> command exits with status 0 when the request for the user's
  playlists succeeds. When the
  request raises an exception, \<open>my_playlists\<close> does not catch it: the handler of \<open>main\<close>
  prints it as an error message and the process exits with status 1, after that one
  request.
\<close>

theorem playlists_exit_status:
  assumes "truthy (environ w ''SPOTIFY_CLIENT_ID'')"
    and "truthy (environ w ''SPOTIFY_CLIENT_SECRET'')"
    and "sp_construct w (SpotifyCLI_config w) = Inr ()"
  shows "(\<forall>items. sp_current_user_playlists w limit = Inr items \<longrightarrow>
            fst (main w (Some (Cmd_playlists limit))) = 0)
       \<and> (\<forall>e. sp_current_user_playlists w limit = Inl e \<longrightarrow>
            main w (Some (Cmd_playlists limit)) =
              (1, [Construct_client (SpotifyCLI_config w),
                   Call (Api_current_user_playlists limit), Print (Out_error e)]))"
  using assms by (simp add: main_def getenv_def my_playlists_def SpotifyCLI_init_def)

theorem playlists_exit_status_witness:
  "truthy (environ playlists_failing_world ''SPOTIFY_CLIENT_ID'')
   \<and> truthy (environ playlists_failing_world ''SPOTIFY_CLIENT_SECRET'')
   \<and> sp_construct playlists_failing_world (SpotifyCLI_config playlists_failing_world) = Inr ()
   \<and> sp_current_user_playlists playlists_failing_world 20 = Inl (PyException ''http status: 401'')
   \<and> main playlists_failing_world (Some (Cmd_playlists 20)) =
       (1, [Construct_client (SpotifyCLI_config playlists_failing_world),
            Call (Api_current_user_playlists 20),
            Print (Out_error (PyException ''http status: 401''))])
   \<and> sp_construct demo_world (SpotifyCLI_config demo_world) = Inr ()
   \<and> sp_current_user_playlists demo_world 20 = Inr []
   \<and> fst (main demo_world (Some (Cmd_playlists 20))) = 0"
proof -
  have h1: "truthy (environ playlists_failing_world ''SPOTIFY_CLIENT_ID'')"
    and h2: "truthy (environ playlists_failing_world ''SPOTIFY_CLIENT_SECRET'')"
    and h3: "sp_construct playlists_failing_world (SpotifyCLI_config playlists_failing_world) =
               Inr ()"
    and h4: "sp_current_user_playlists playlists_failing_world 20 =
               Inl (PyException ''http status: 401'')"
    by (simp_all add: playlists_failing_world_def demo_world_def truthy_def SpotifyCLI_config_def
          getenv_default_def)
  have g1: "truthy (environ demo_world ''SPOTIFY_CLIENT_ID'')"
    and g2: "truthy (environ demo_world ''SPOTIFY_CLIENT_SECRET'')"
    and g3: "sp_construct demo_world (SpotifyCLI_config demo_world) = Inr ()"
    and g4: "sp_current_user_playlists demo_world 20 = Inr []"
    by (simp_all add: demo_world_def truthy_def SpotifyCLI_config_def getenv_default_def)
  show ?thesis
    using playlists_exit_status [OF h1 h2 h3, of 20] playlists_exit_status [OF g1 g2 g3, of 20]
      h1 h2 h3 h4 g3 g4
    by simp
qed

text \<open>
  The claim as the specification states it (status 0 also when the request fails) does
  not hold: in the run below the request is rejected and the exit status is 1.
\<close>

theorem playlists_failure_exit_0_counterexample:
  "sp_construct playlists_failing_world (SpotifyCLI_config playlists_failing_world) = Inr ()
   \<and> sp_current_user_playlists playlists_failing_world 20 = Inl (PyException ''http status: 401'')
   \<and> fst (main playlists_failing_world (Some (Cmd_playlists 20))) = 1
   \<and> fst (main playlists_failing_world (Some (Cmd_playlists 20))) \<noteq> 0"
  by (simp add: playlists_failing_world_def demo_world_def main_def getenv_def truthy_def
        my_playlists_def SpotifyCLI_init_def SpotifyCLI_config_def getenv_default_def)

section \<open>The playlist command\<close>

text \<open>
  Claim C10. When the service returns the playlist, \<open>playlist_tracks\<close> returns normally
  whatever items have a null track. After the request and the title it prints one line
  for each item whose track is not null, in the order of the items, and the number on
  the line of the item at position \<open>k\<close> (counting from 0) is \<open>k + 1\<close>: the numbering is
  1-based over all items, the null ones included. An item with a null track prints
  nothing.
\<close>

theorem playlist_tracks_skips_null_tracks:
  assumes "sp_playlist w uri = Inr pl"
  shows "fst (playlist_tracks w uri) = Inr ()
       \<and> snd (playlist_tracks w uri) =
           [Call (Api_playlist uri), Print (Out_playlist_title (playlist_name pl))] @
           List.map_filter (\<lambda>k. map_option (track_line (k + 1)) (playlist_items pl ! k))
             [0 ..< length (playlist_items pl)]
       \<and> length (snd (playlist_tracks w uri)) =
           2 + length (filter (\<lambda>item. item \<noteq> None) (playlist_items pl))"
  using assms
  by (simp add: playlist_tracks_def playlist_tracks_loop_enumerate [symmetric]
        length_playlist_tracks_loop)
     (simp add: playlist_tracks_loop_enumerate enumerate_index List.map_filter_def
        filter_map comp_def)

theorem playlist_tracks_skips_null_tracks_witness:
  "sp_playlist demo_world ''spotify:playlist:1'' =
     Inr \<lparr> playlist_name = ''Mix'',
           playlist_items = [Some (song ''One'' [''A'', ''B'']), None, Some (song ''Three'' [''C''])] \<rparr>
   \<and> playlist_tracks demo_world ''spotify:playlist:1'' =
       (Inr (),
        [Call (Api_playlist ''spotify:playlist:1''), Print (Out_playlist_title ''Mix''),
         Print (Out_numbered 1 ''One'' ''A, B''), Print (Out_numbered 3 ''Three'' ''C'')])"
proof -
  have h: "sp_playlist demo_world ''spotify:playlist:1'' =
     Inr \<lparr> playlist_name = ''Mix'',
           playlist_items = [Some (song ''One'' [''A'', ''B'']), None, Some (song ''Three'' [''C''])] \<rparr>"
    by (simp add: demo_world_def)
  have "snd (playlist_tracks demo_world ''spotify:playlist:1'') =
        [Call (Api_playlist ''spotify:playlist:1''), Print (Out_playlist_title ''Mix''),
         Print (Out_numbered 1 ''One'' ''A, B''), Print (Out_numbered 3 ''Three'' ''C'')]"
    by (simp add: playlist_tracks_def h song_def)
  with playlist_tracks_skips_null_tracks [OF h] h show ?thesis
    by (simp add: prod_eq_iff)
qed

section \<open>Loading the configuration\<close>

text \<open>
  What the module-level code decides: with a \<^verbatim>\<open>.env\<close> in the working directory it
  calls \<^verbatim>\<open>load_dotenv()\<close> without a path, and the file of the home directory is not
  read; otherwise it loads \<^verbatim>\<open>.spotify-cli.env\<close> of the home directory. When \<^verbatim>\<open>HOME\<close> is
  set in the process environment, the path of the token cache is \<^verbatim>\<open>.spotify-cli-cache\<close>
  under it, whatever the working directory and whatever the files hold.
\<close>

lemma load_environment_cases:
  "(path_exists w (os_path_join (cwd w) ''.env'') \<longrightarrow>
      environ (load_environment w) = dotenv_values w (find_dotenv w) ++ environ w)
 \<and> (\<not> path_exists w (os_path_join (cwd w) ''.env'') \<longrightarrow>
      environ (load_environment w) =
        dotenv_values w (os_path_join (expanduser_home w) ''.spotify-cli.env'') ++ environ w)"
  by (simp add: load_environment_def load_dotenv_def)

lemma cache_path_with_HOME:
  assumes "environ w ''HOME'' = Some h"
  shows "cache_path (SpotifyCLI_config (load_environment w)) =
           os_path_join (expanduser_home w) ''.spotify-cli-cache''
       \<and> cache_path (SpotifyCLI_config (load_environment (w\<lparr>cwd := d\<rparr>))) =
           cache_path (SpotifyCLI_config (load_environment w))"
  using assms
  by (simp add: load_environment_def load_dotenv_def SpotifyCLI_config_def expanduser_home_def
        map_add_Some_iff)

text \<open>
  Claim C9. A \<^verbatim>\<open>.env\<close> file in the working directory is to be loaded, as the comment
  in the source says ("Try to load from current directory first"). The code tests for
  the file in the working directory but then calls \<^verbatim>\<open>load_dotenv()\<close> without a path,
  which looks for \<^verbatim>\<open>.env\<close> from the directory of \<^verbatim>\<open>spotify_cli.py\<close> upwards. In the run
  below the program is installed in \<^verbatim>\<open>/opt/spotify-cli\<close> and started in \<^verbatim>\<open>/work\<close>;
  \<^verbatim>\<open>/work/.env\<close> exists and holds both credentials, and so does the file of the home
  directory. Nothing is found from \<^verbatim>\<open>/opt/spotify-cli\<close> upwards, so no file is loaded at
  all: the client id stays unset and the \<^verbatim>\<open>devices\<close> command exits with status 1 on the
  credential check. The file of the working directory is loaded when the program itself
  lies there. The cache path is the same in both runs.
\<close>

theorem cwd_env_file_not_loaded:
  "path_exists work_dir_world (os_path_join (cwd work_dir_world) ''.env'')
   \<and> dotenv_values work_dir_world ''/work/.env'' ''SPOTIFY_CLIENT_ID'' = Some ''work-id''
   \<and> find_dotenv work_dir_world = []
   \<and> environ (load_environment work_dir_world) ''SPOTIFY_CLIENT_ID'' = None
   \<and> program work_dir_world (Some Cmd_devices) = (1, credentials_help work_dir_world)
   \<and> environ (load_environment (work_dir_world\<lparr>script_dir := [''work'']\<rparr>)) ''SPOTIFY_CLIENT_ID''
       = Some ''work-id''
   \<and> cache_path (SpotifyCLI_config (load_environment work_dir_world)) =
       ''/home/user/.spotify-cli-cache''
   \<and> cache_path (SpotifyCLI_config
         (load_environment (work_dir_world\<lparr>script_dir := [''work'']\<rparr>))) =
       ''/home/user/.spotify-cli-cache''"
proof -
  let ?moved = "work_dir_world\<lparr>script_dir := [''work'']\<rparr>"
  have here: "path_exists work_dir_world (os_path_join (cwd work_dir_world) ''.env'')"
    "path_exists ?moved (os_path_join (cwd ?moved) ''.env'')"
    by (simp_all add: work_dir_world_def demo_world_def path_exists_def os_path_join_def)
  have vars: "dotenv_values work_dir_world ''/work/.env'' ''SPOTIFY_CLIENT_ID'' = Some ''work-id''"
    "dotenv_values ?moved ''/work/.env'' ''SPOTIFY_CLIENT_ID'' = Some ''work-id''"
    "dotenv_values ?moved ''/work/.env'' ''HOME'' = None"
    by (simp_all add: work_dir_world_def demo_world_def dotenv_values_def)
  have found: "find_dotenv work_dir_world = []"
    by (simp add: work_dir_world_def demo_world_def find_dotenv_def walk_to_root_def abs_dir_def
          os_path_join_def)
  have found': "find_dotenv ?moved = ''/work/.env''"
    by (simp add: work_dir_world_def demo_world_def find_dotenv_def walk_to_root_def abs_dir_def
          os_path_join_def)
  have env: "environ work_dir_world = [''HOME'' \<mapsto> ''/home/user'']"
    "environ ?moved = [''HOME'' \<mapsto> ''/home/user'']"
    by (simp_all add: work_dir_world_def)
  have load: "load_environment work_dir_world = work_dir_world"
    using here(1) by (simp add: load_environment_def load_dotenv_def found dotenv_values_def)
  have load': "environ (load_environment ?moved) =
                 dotenv_values ?moved ''/work/.env'' ++ [''HOME'' \<mapsto> ''/home/user'']"
    using here(2) by (simp add: load_environment_def load_dotenv_def found' env)
  have unset: "environ (load_environment work_dir_world) ''SPOTIFY_CLIENT_ID'' = None"
    by (simp add: load env)
  have run: "program work_dir_world (Some Cmd_devices) = (1, credentials_help work_dir_world)"
    by (simp add: program_def load main_def getenv_def env truthy_def)
  have set: "environ (load_environment ?moved) ''SPOTIFY_CLIENT_ID'' = Some ''work-id''"
    by (simp add: load' vars map_add_def)
  have home: "environ (load_environment ?moved) ''HOME'' = Some ''/home/user''"
    by (simp add: load')
  have cache: "cache_path (SpotifyCLI_config (load_environment work_dir_world)) =
                 ''/home/user/.spotify-cli-cache''"
    by (simp add: load SpotifyCLI_config_def expanduser_home_def env rstrip_sep_def
          os_path_join_def)
  have cache': "cache_path (SpotifyCLI_config (load_environment ?moved)) =
                  ''/home/user/.spotify-cli-cache''"
    by (simp add: SpotifyCLI_config_def expanduser_home_def home rstrip_sep_def os_path_join_def)
  from here(1) vars(1) found unset run set cache cache' show ?thesis
    by blast
qed

end
